theory Spec2Isabelle
  imports Complex_Main "HOL-Library.Multiset"
begin

section \<open>JavaScript values\<close>

text \<open>
  The dashboard is JavaScript. Its numbers are IEEE doubles; here a finite double is
  the real number it denotes (the rounding of the mantissa is not modelled where a value
  is only read, and is a parameter where the code adds numbers up),
  and the three non-finite doubles are constructors of their own, so that every
  \<^verbatim>\<open>isNaN\<close> / \<^verbatim>\<open>isFinite\<close> test of the source is a branch of the model. Negative
  zero is identified with zero. Strings are lists of code units below 256.
\<close>

datatype jsnum = Finite real | NaN | PosInf | NegInf

text \<open>
  A property value of a GeoJSON feature as the data model has it (string, number or
  null), and \<^verbatim>\<open>undefined\<close> for a key that is absent.
\<close>

datatype jsval = JUndefined | JNull | JNum jsnum | JStr string

datatype error = TypeError

text \<open>Truthiness (ToBoolean) and the operator \<^verbatim>\<open>a || b\<close>.\<close>

fun truthy :: "jsval \<Rightarrow> bool" where
  "truthy JUndefined = False"
| "truthy JNull = False"
| "truthy (JNum n) = (n \<noteq> NaN \<and> n \<noteq> Finite 0)"
| "truthy (JStr s) = (s \<noteq> [])"

definition js_or :: "jsval \<Rightarrow> jsval \<Rightarrow> jsval" where
  "js_or a b = (if truthy a then a else b)"

text \<open>\<^verbatim>\<open>Number.isFinite\<close> on a number.\<close>

fun isFinite :: "jsnum \<Rightarrow> bool" where
  "isFinite (Finite r) = True"
| "isFinite n = False"

text \<open>
  White space and line terminators of ECMAScript among the code units below 256:
  TAB, LF, VT, FF, CR, SP and NBSP. \<^verbatim>\<open>String.prototype.trim\<close> removes them at
  both ends.
\<close>

definition isWhiteSpace :: "char \<Rightarrow> bool" where
  "isWhiteSpace c = (c \<in> set [CHR 0x09, CHR 0x0A, CHR 0x0B, CHR 0x0C, CHR 0x0D, CHR 0x20, CHR 0xA0])"

definition trim :: "string \<Rightarrow> string" where
  "trim s = rev (dropWhile isWhiteSpace (rev (dropWhile isWhiteSpace s)))"

text \<open>
  \<^verbatim>\<open>String(value)\<close>. The decimal rendering of a finite number
  (Number::toString) is a built-in that the repository does not define; it is the
  parameter \<open>fmt\<close>.
\<close>

fun String :: "(real \<Rightarrow> string) \<Rightarrow> jsval \<Rightarrow> string" where
  "String fmt JUndefined = ''undefined''"
| "String fmt JNull = ''null''"
| "String fmt (JNum (Finite r)) = fmt r"
| "String fmt (JNum NaN) = ''NaN''"
| "String fmt (JNum PosInf) = ''Infinity''"
| "String fmt (JNum NegInf) = ''-Infinity''"
| "String fmt (JStr s) = s"

section \<open>Reading a decimal literal\<close>

text \<open>
  \<^verbatim>\<open>Number(s)\<close> and \<^verbatim>\<open>parseFloat(s)\<close> read the StrDecimalLiteral grammar of
  ECMAScript: an optional sign, then \<^verbatim>\<open>Infinity\<close>, or digits with an optional
  fraction, or a fraction alone, then an optional exponent. \<open>strDecimalLiteral\<close>
  returns the value of the longest prefix that is such a literal, and the rest.
\<close>

definition isDigit :: "char \<Rightarrow> bool" where
  "isDigit c = (c \<in> set ''0123456789'')"

definition digitVal :: "char \<Rightarrow> nat" where
  "digitVal c = of_char c - 48"

definition digitsValue :: "string \<Rightarrow> nat" where
  "digitsValue ds = foldl (\<lambda>a c. 10 * a + digitVal c) 0 ds"

text \<open>
  The value of mantissa \<open>m\<close> times ten to the \<open>e\<close>, as a double: a magnitude that
  rounds beyond the largest double (from \<open>2^1024 - 2^970\<close> on) is an infinity.
\<close>

definition toDouble :: "real \<Rightarrow> jsnum" where
  "toDouble r =
     (if 2 ^ 1024 - 2 ^ 970 \<le> \<bar>r\<bar> then (if 0 < r then PosInf else NegInf) else Finite r)"

definition scale :: "nat \<Rightarrow> int \<Rightarrow> real" where
  "scale m e = (if 0 \<le> e then real m * 10 ^ nat e else real m / 10 ^ nat (- e))"

definition strExponent :: "string \<Rightarrow> int \<times> string" where
  "strExponent s =
     (case s of
        [] \<Rightarrow> (0, s)
      | c # r \<Rightarrow>
          if c = CHR ''e'' \<or> c = CHR ''E'' then
            (let sgn = (if r \<noteq> [] \<and> hd r = CHR ''-'' then - 1 else (1::int));
                 r' = (if r \<noteq> [] \<and> (hd r = CHR ''+'' \<or> hd r = CHR ''-'') then tl r else r);
                 ds = takeWhile isDigit r'
             in if ds = [] then (0, s) else (sgn * int (digitsValue ds), dropWhile isDigit r'))
          else (0, s))"

definition strUnsignedDecimalLiteral :: "string \<Rightarrow> (jsnum \<times> string) option" where
  "strUnsignedDecimalLiteral s =
     (if take 8 s = ''Infinity'' then Some (PosInf, drop 8 s)
      else
        let d1 = takeWhile isDigit s; r1 = dropWhile isDigit s in
        if r1 \<noteq> [] \<and> hd r1 = CHR ''.'' then
          (let d2 = takeWhile isDigit (tl r1); r2 = dropWhile isDigit (tl r1) in
           if d1 = [] \<and> d2 = [] then None
           else (case strExponent r2 of (e, r3) \<Rightarrow>
                   Some (toDouble (scale (digitsValue (d1 @ d2)) (e - int (length d2))), r3)))
        else if d1 = [] then None
        else (case strExponent r1 of (e, r3) \<Rightarrow> Some (toDouble (scale (digitsValue d1) e), r3)))"

fun negate :: "jsnum \<Rightarrow> jsnum" where
  "negate (Finite r) = Finite (- r)"
| "negate NaN = NaN"
| "negate PosInf = NegInf"
| "negate NegInf = PosInf"

definition strDecimalLiteral :: "string \<Rightarrow> (jsnum \<times> string) option" where
  "strDecimalLiteral s =
     (if s \<noteq> [] \<and> hd s = CHR ''+'' then strUnsignedDecimalLiteral (tl s)
      else if s \<noteq> [] \<and> hd s = CHR ''-'' then
        map_option (\<lambda>(n, r). (negate n, r)) (strUnsignedDecimalLiteral (tl s))
      else strUnsignedDecimalLiteral s)"

text \<open>
  \<^verbatim>\<open>Number(s)\<close> on a string: the empty or blank string is 0, a string that is a
  decimal literal as a whole is its value, anything else is NaN. The literals
  \<^verbatim>\<open>0x..\<close>, \<^verbatim>\<open>0o..\<close> and \<^verbatim>\<open>0b..\<close> are left out: the only caller removes every
  letter but \<^verbatim>\<open>e\<close> and \<^verbatim>\<open>E\<close> first.
\<close>

definition Number :: "string \<Rightarrow> jsnum" where
  "Number s =
     (let t = trim s in
      if t = [] then Finite 0
      else (case strDecimalLiteral t of Some (n, []) \<Rightarrow> n | _ \<Rightarrow> NaN))"

text \<open>
  \<^verbatim>\<open>parseFloat(s)\<close> on a string: leading white space is skipped and the longest
  prefix that is a decimal literal is read; NaN when there is none.
\<close>

definition parseFloat :: "string \<Rightarrow> jsnum" where
  "parseFloat s =
     (case strDecimalLiteral (dropWhile isWhiteSpace s) of Some (n, r) \<Rightarrow> n | None \<Rightarrow> NaN)"

section \<open>Field coercion: parseNumericValue\<close>

text \<open>
  \<^verbatim>\<open>
  const parseNumericValue = (value) => {
    if (value === null || value === undefined) return null;
    if (typeof value === 'number' && Number.isFinite(value)) return value;
    const cleaned = String(value).replace(/[^0-9eE.+-]/g, '');
    const parsed = Number(cleaned);
    return Number.isFinite(parsed) ? parsed : null;
  };
  \<close>
\<close>

definition keptChar :: "char \<Rightarrow> bool" where
  "keptChar c = (isDigit c \<or> c \<in> set ''eE.+-'')"

definition cleaned :: "string \<Rightarrow> string" where
  "cleaned s = filter keptChar s"

fun parseNumericValue :: "(real \<Rightarrow> string) \<Rightarrow> jsval \<Rightarrow> jsval" where
  "parseNumericValue fmt JNull = JNull"
| "parseNumericValue fmt JUndefined = JNull"
| "parseNumericValue fmt (JNum (Finite r)) = JNum (Finite r)"
| "parseNumericValue fmt v =
     (let parsed = Number (cleaned (String fmt v))
      in if isFinite parsed then JNum parsed else JNull)"

section \<open>Coordinate normalizer\<close>

text \<open>
  \<^verbatim>\<open>
  const toWgs84Coordinate = ([x, y]) => {
    const originShift = 20037508.34;
    const lon = (x / originShift) * 180;
    let lat = (y / originShift) * 180;
    lat = (180 / Math.PI) * (2 * Math.atan(Math.exp((lat * Math.PI) / 180)) - Math.PI / 2);
    return [lon, lat];
  };
  \<close>
\<close>

definition originShift :: real where
  "originShift = 20037508.34"

definition toWgs84Coordinate :: "real \<times> real \<Rightarrow> real \<times> real" where
  "toWgs84Coordinate xy =
     (case xy of (x, y) \<Rightarrow>
        let lon = (x / originShift) * 180;
            lat = (y / originShift) * 180;
            lat = (180 / pi) * (2 * arctan (exp ((lat * pi) / 180)) - pi / 2)
        in (lon, lat))"

text \<open>
  A geometry's \<^verbatim>\<open>coordinates\<close> member is a JSON value: a number, an array, or
  something else (null, a boolean, a string, or nothing at all). GeoJSON nests
  arrays to any depth (point, line, polygon, multi-polygon).
\<close>

datatype atom = AUndefined | ANull | ABool bool | AStr string

datatype coords = CNum real | CArr "coords list" | CAtom atom


record geometry =
  gtype :: string
  coordinates :: coords

text \<open>
  A feature; \<open>geometry\<close> and \<open>properties\<close> are \<open>None\<close> when the member is
  null or absent. A property mapping is a finite map from keys to values, and reading
  a key that is absent gives \<^verbatim>\<open>undefined\<close>. The properties of a feature that was
  read from GeoJSON hold JSON values; the type of the values is a parameter, because a
  processed census tract can hold other values (see below).
\<close>

type_synonym props = "string \<rightharpoonup> jsval"

definition get :: "props \<Rightarrow> string \<Rightarrow> jsval" where
  "get p k = (case p k of None \<Rightarrow> JUndefined | Some v \<Rightarrow> v)"

record 'v featureOf =
  fid :: jsval
  geometry :: "geometry option"
  properties :: "(string \<rightharpoonup> 'v) option"

type_synonym feature = "jsval featureOf"

text \<open>
  A feature collection; \<open>features\<close> is \<open>None\<close> when the member is absent, and an
  entry of the array is \<open>None\<close> when it is null.
\<close>

record featureCollection =
  features :: "feature option list option"

text \<open>
  The test \<^verbatim>\<open>typeof coords[0] === 'number' && typeof coords[1] === 'number'\<close> on an
  array, with the two numbers when it holds.
\<close>

fun coordXY :: "coords list \<Rightarrow> (real \<times> real) option" where
  "coordXY (CNum x # CNum y # r) = Some (x, y)"
| "coordXY cs = None"

















definition reprojectedCoord :: "coords list \<Rightarrow> coords list" where
  "reprojectedCoord cs =
     (case coordXY cs of
        Some xy \<Rightarrow> (case toWgs84Coordinate xy of (lon, lat) \<Rightarrow> [CNum lon, CNum lat])
      | None \<Rightarrow> cs)"

section \<open>Search state\<close>

text \<open>
  \<^verbatim>\<open>
  useEffect(() => {
    if (!searchQuery.trim()) {
      setSearchResults([]);
      setShowSearchResults(false);
      setSelectedResultIndex(-1);
      return;
    }
    const results = searchProjects(searchQuery, allProjectsData);
    setSearchResults(results);
    setShowSearchResults(true);
    setSelectedResultIndex(-1);
  }, [searchQuery, allProjectsData]);
  \<close>
  The ranking function \<^verbatim>\<open>searchProjects\<close> comes from a module that is not among the
  sources; it is a parameter of the effect.
\<close>

record 'r searchState =
  searchResults :: "'r list"
  showSearchResults :: bool
  selectedResultIndex :: int

definition searchEffect ::
  "(string \<Rightarrow> 'd \<Rightarrow> 'r list) \<Rightarrow> string \<Rightarrow> 'd \<Rightarrow> 'r searchState \<Rightarrow> 'r searchState" where
  "searchEffect searchProjects searchQuery allProjectsData st =
     (if trim searchQuery = [] then
        st\<lparr>searchResults := [], showSearchResults := False, selectedResultIndex := - 1\<rparr>
      else
        st\<lparr>searchResults := searchProjects searchQuery allProjectsData,
           showSearchResults := True, selectedResultIndex := - 1\<rparr>)"

text \<open>
  What is rendered below the search box: the result list under
  \<^verbatim>\<open>showSearchResults && searchResults.length > 0\<close>, the no-results message under
  \<^verbatim>\<open>showSearchResults && searchQuery.trim() && searchResults.length === 0\<close>.
\<close>

definition resultsDropdown :: "'r searchState \<Rightarrow> bool" where
  "resultsDropdown st = (showSearchResults st \<and> length (searchResults st) > 0)"

definition noResultsMessage :: "string \<Rightarrow> 'r searchState \<Rightarrow> bool" where
  "noResultsMessage searchQuery st =
     (showSearchResults st \<and> trim searchQuery \<noteq> [] \<and> length (searchResults st) = 0)"

section \<open>Highlighting\<close>

text \<open>
  \<^verbatim>\<open>
  export const highlightText = (text, query) => {
    if (!text || typeof text !== 'string') { return <>{text}</>; }
    if (!query || !query.trim()) { return <>{text}</>; }
    const searchTerm = query.trim();
    const escapedQuery = searchTerm.replace(/[.*+?^${}()|[\]\\]/g, '\\$&');
    const regex = new RegExp(`(${escapedQuery})`, 'gi');
    const parts = text.split(regex).filter(part => part.length > 0);
    return (<>{parts.map((part, index) => {
        if (part.toLowerCase() === searchTerm.toLowerCase()) {
          return (<span key={index} style={{...}}>{part}</span>);
        }
        return <span key={index}>{part}</span>;
      })}</>);
  };
  \<close>
  Every syntax character of the search term is escaped, so the regular expression is one
  capture group that matches the term literally, ignoring case. Two built-ins are
  parameters: \<open>canon\<close>, the case folding of one code unit that the flag \<^verbatim>\<open>i\<close>
  applies to both sides, and \<open>lower\<close>, \<^verbatim>\<open>String.prototype.toLowerCase\<close>.
\<close>

definition matchesAt :: "(char \<Rightarrow> char) \<Rightarrow> string \<Rightarrow> string \<Rightarrow> bool" where
  "matchesAt canon pat rest =
     (length pat \<le> length rest \<and> map canon (take (length pat) rest) = map canon pat)"

text \<open>
  \<^verbatim>\<open>String.prototype.split\<close> with such an expression, as ECMAScript defines it:
  \<open>cur\<close> is the text since the end \<open>p\<close> of the last match, \<open>rest\<close> the text from
  the position \<open>q\<close> on. A match at \<open>q\<close> that ends at \<open>p\<close> (an empty match with
  nothing before it) moves \<open>q\<close> on by one; any other match closes the piece \<open>cur\<close>,
  adds the captured text and restarts after the match; without a match \<open>q\<close> moves on
  by one. At the end the last piece is added.
\<close>

function splitLoop :: "(char \<Rightarrow> char) \<Rightarrow> string \<Rightarrow> string \<Rightarrow> string \<Rightarrow> string list" where
  "splitLoop canon pat cur [] = [cur]"
| "splitLoop canon pat cur (c # r) =
     (if matchesAt canon pat (c # r) then
        (if pat = [] \<and> cur = [] then splitLoop canon pat (cur @ [c]) r
         else cur # take (length pat) (c # r) # splitLoop canon pat [] (drop (length pat) (c # r)))
      else splitLoop canon pat (cur @ [c]) r)"
  by pat_completeness auto
termination
proof (relation "measure (\<lambda>(canon, pat, cur, rest). 2 * length rest + (if cur = [] then 0 else 1))")
  fix canon :: "char \<Rightarrow> char" and pat cur :: string and c :: char and r :: string
  assume "\<not> (pat = [] \<and> cur = [])"
  then show "((canon, pat, [], drop (length pat) (c # r)), (canon, pat, cur, c # r))
      \<in> measure (\<lambda>(canon, pat, cur, rest). 2 * length rest + (if cur = [] then 0 else 1))"
    by (cases pat) auto
qed auto

definition split :: "(char \<Rightarrow> char) \<Rightarrow> string \<Rightarrow> string \<Rightarrow> string list" where
  "split canon pat text =
     (if text = [] then (if matchesAt canon pat [] then [] else [text])
      else splitLoop canon pat [] text)"

datatype piece = Highlighted string | Plain string

datatype rendered = Verbatim jsval | Spans "piece list"

fun isString :: "jsval \<Rightarrow> bool" where
  "isString (JStr s) = True"
| "isString v = False"

fun highlightText ::
  "(char \<Rightarrow> char) \<Rightarrow> (string \<Rightarrow> string) \<Rightarrow> jsval \<Rightarrow> string \<Rightarrow> rendered" where
  "highlightText canon lower (JStr text) query =
     (if \<not> truthy (JStr text) then Verbatim (JStr text)
      else if query = [] \<or> trim query = [] then Verbatim (JStr text)
      else
        let searchTerm = trim query;
            parts = filter (\<lambda>part. length part > 0) (split canon searchTerm text)
        in Spans (map (\<lambda>part. if lower part = lower searchTerm then Highlighted part
                               else Plain part) parts))"
| "highlightText canon lower text query = Verbatim text"

fun pieceText :: "piece \<Rightarrow> string" where
  "pieceText (Highlighted s) = s"
| "pieceText (Plain s) = s"

fun renderedText :: "rendered \<Rightarrow> jsval" where
  "renderedText (Verbatim v) = v"
| "renderedText (Spans ps) = JStr (concat (map pieceText ps))"

text \<open>Case folding of the ASCII letters, for running the functions on examples.\<close>

definition asciiUpper :: "char \<Rightarrow> char" where
  "asciiUpper c =
     (case map_of (zip ''abcdefghijklmnopqrstuvwxyz'' ''ABCDEFGHIJKLMNOPQRSTUVWXYZ'') c of
        Some u \<Rightarrow> u | None \<Rightarrow> c)"

definition asciiLower :: "string \<Rightarrow> string" where
  "asciiLower s =
     map (\<lambda>c. case map_of (zip ''ABCDEFGHIJKLMNOPQRSTUVWXYZ'' ''abcdefghijklmnopqrstuvwxyz'') c of
                Some l \<Rightarrow> l | None \<Rightarrow> c) s"

section \<open>Ingestion of census tracts\<close>

text \<open>
  \<^verbatim>\<open>
  const processedFeatures = (reprojected.features || []).map((feature, index) => {
    const properties = { ...(feature.properties || {}) };
    const riskRating = properties['T_FEMA_National_Risk_Index_$_.FEMAIndexRating'] || null;
    const populationValue = parseNumericValue(
      properties['T_CENSUS_Community_Resilience_Est$_.Total_population__excludes_adult_correctional_juvenile_facilitie']
    );
    const geoid = properties['L0Census_Tracts.GEOID'];
    const pred3PE = geoid ? pred3PEDataRef.current[geoid] : null;
    return {
      ...feature,
      id: feature.id ?? geoid ?? index,
      properties: {
        ...properties,
        __riskRating: riskRating,
        __population: populationValue,
        __pred3PE: pred3PE !== null && pred3PE !== undefined ? pred3PE : null
      }
    };
  });
  \<close>
  The table \<^verbatim>\<open>pred3PEDataRef.current\<close> is a plain object (\<^verbatim>\<open>const pred3PEMap = {}\<close>)
  that the loader fills by assignment \<^verbatim>\<open>pred3PEMap[geoid] = pred3PE\<close> with numbers that
  are not NaN; here it is the map of its own properties. A value used as its key is
  converted with \<^verbatim>\<open>String\<close>. Reading a key that is no own property gives the member of
  \<^verbatim>\<open>Object.prototype\<close> of that name when there is one, so the value read, and the
  derived field \<^verbatim>\<open>__pred3PE\<close> with it, can be such a member instead of a number. The
  key \<^verbatim>\<open>__proto__\<close> is never an own property: an assignment of a number to it is
  ignored, and reading it gives the prototype object.
\<close>

definition objectPrototype :: "string list" where
  "objectPrototype =
     [''constructor'', ''__defineGetter__'', ''__defineSetter__'', ''hasOwnProperty'',
      ''__lookupGetter__'', ''__lookupSetter__'', ''isPrototypeOf'', ''propertyIsEnumerable'',
      ''toString'', ''valueOf'', ''__proto__'', ''toLocaleString'']"

text \<open>
  What a property of a plain object can be read as: a value of the data, or the member
  of \<^verbatim>\<open>Object.prototype\<close> of the given name (a function, and for \<^verbatim>\<open>__proto__\<close> the
  prototype object itself).
\<close>

datatype 'a slot = Held 'a | Member string

definition riskRatingKey :: string where
  "riskRatingKey = ''T_FEMA_National_Risk_Index_$_.FEMAIndexRating''"

definition populationKey :: string where
  "populationKey = ''T_CENSUS_Community_Resilience_Est$_.Total_population__excludes_adult_correctional_juvenile_facilitie''"

definition geoidKey :: string where
  "geoidKey = ''L0Census_Tracts.GEOID''"

definition rawKeysRead :: "string list" where
  "rawKeysRead = [riskRatingKey, populationKey, geoidKey]"

definition derivedKeys :: "string list" where
  "derivedKeys = [''__riskRating'', ''__population'', ''__pred3PE'']"

text \<open>The operator \<^verbatim>\<open>a ?? b\<close>.\<close>

definition nullish :: "jsval \<Rightarrow> jsval \<Rightarrow> jsval" where
  "nullish a b = (if a = JNull \<or> a = JUndefined then b else a)"

definition propsOrEmpty :: "feature \<Rightarrow> props" where
  "propsOrEmpty feature = (case properties feature of None \<Rightarrow> Map.empty | Some p \<Rightarrow> p)"

definition lookupPred3PE ::
  "(real \<Rightarrow> string) \<Rightarrow> (string \<rightharpoonup> jsnum) \<Rightarrow> jsval \<Rightarrow> jsval slot" where
  "lookupPred3PE fmt pred3PEData geoid =
     (if truthy geoid then
        (let k = String fmt geoid in
         if k = ''__proto__'' then Member k
         else
           (case pred3PEData k of
              Some n \<Rightarrow> Held (JNum n)
            | None \<Rightarrow> if k \<in> set objectPrototype then Member k else Held JUndefined))
      else Held JNull)"

text \<open>
  The three property definitions \<^verbatim>\<open>__riskRating: ..., __population: ..., __pred3PE: ...\<close>
  of the object literal, in their order: the key and the value that each one computes from
  the raw properties.
\<close>

definition derivedFields ::
  "(real \<Rightarrow> string) \<Rightarrow> (string \<rightharpoonup> jsnum) \<Rightarrow> props \<Rightarrow> (string \<times> jsval slot) list" where
  "derivedFields fmt pred3PEData props =
     (let riskRating = js_or (get props riskRatingKey) JNull;
          populationValue = parseNumericValue fmt (get props populationKey);
          geoid = get props geoidKey;
          pred3PE = lookupPred3PE fmt pred3PEData geoid
      in [(''__riskRating'', Held riskRating),
          (''__population'', Held populationValue),
          (''__pred3PE'',
             if pred3PE \<noteq> Held JNull \<and> pred3PE \<noteq> Held JUndefined then pred3PE else Held JNull)])"

text \<open>
  The processed feature: the spread \<^verbatim>\<open>...properties\<close> copies every raw property, and
  each property definition after it sets its key.
\<close>

definition processFeature ::
  "(real \<Rightarrow> string) \<Rightarrow> (string \<rightharpoonup> jsnum) \<Rightarrow> feature \<Rightarrow> nat \<Rightarrow> jsval slot featureOf" where
  "processFeature fmt pred3PEData feature index =
     (let props = propsOrEmpty feature;
          geoid = get props geoidKey
      in \<lparr>fid = nullish (fid feature) (nullish geoid (JNum (Finite (real index)))),
          geometry = geometry feature,
          properties =
            Some (fold (\<lambda>kv p. p(fst kv \<mapsto> snd kv)) (derivedFields fmt pred3PEData props)
                    (\<lambda>k. map_option Held (props k)))\<rparr>)"

text \<open>
  The map over the array with its index; reading \<^verbatim>\<open>feature.properties\<close> of a null
  entry raises a TypeError.
\<close>

fun processFrom ::
  "(real \<Rightarrow> string) \<Rightarrow> (string \<rightharpoonup> jsnum) \<Rightarrow> nat \<Rightarrow> feature option list
     \<Rightarrow> error + jsval slot featureOf list" where
  "processFrom fmt pred3PEData index [] = Inr []"
| "processFrom fmt pred3PEData index (None # rest) = Inl TypeError"
| "processFrom fmt pred3PEData index (Some feature # rest) =
     (case processFrom fmt pred3PEData (Suc index) rest of
        Inl e \<Rightarrow> Inl e
      | Inr done \<Rightarrow> Inr (processFeature fmt pred3PEData feature index # done))"

definition processedFeatures ::
  "(real \<Rightarrow> string) \<Rightarrow> (string \<rightharpoonup> jsnum) \<Rightarrow> featureCollection
     \<Rightarrow> error + jsval slot featureOf list" where
  "processedFeatures fmt pred3PEData reprojected =
     processFrom fmt pred3PEData 0 (case features reprojected of None \<Rightarrow> [] | Some fs \<Rightarrow> fs)"

section \<open>Ingestion of projects: the city of a marker\<close>

text \<open>
  \<^verbatim>\<open>
  data.features.forEach(feature => {
    const geometry = feature.geometry;
    const coordinates = geometry && geometry.coordinates;
    if (!geometry || geometry.type !== 'Point' || !Array.isArray(coordinates) ||
        coordinates.length < 2 || typeof coordinates[0] !== 'number' ||
        typeof coordinates[1] !== 'number' || !Number.isFinite(coordinates[0]) ||
        !Number.isFinite(coordinates[1])) {
      console.warn(...);
      return;
    }
    const properties = feature.properties;
    const cityField = properties['NAME'] || properties['City'];
    if (cityField) {
      if (properties['NAME']) { properties['NAME'] = properties['NAME'].trim(); }
      if (properties['City']) { properties['City'] = properties['City'].trim(); }
    }
    ...
  \<close>
  \<open>properties\<close> is the feature's own object, so the assignments change the feature
  that the project collection holds. \<^verbatim>\<open>.trim()\<close> on a value that is not a string
  raises a TypeError, as does reading a key of a null \<open>properties\<close>; what was assigned
  before stays assigned. The step returns the feature as it is afterwards, and the error
  if one was raised.
\<close>

definition validPoint :: "feature \<Rightarrow> bool" where
  "validPoint feature =
     (case geometry feature of
        None \<Rightarrow> False
      | Some g \<Rightarrow>
          gtype g = ''Point'' \<and>
          (case coordinates g of CArr cs \<Rightarrow> coordXY cs \<noteq> None | _ \<Rightarrow> False))"

definition trimKey :: "string \<Rightarrow> props \<times> error option \<Rightarrow> props \<times> error option" where
  "trimKey k st =
     (case st of
        (p, Some e) \<Rightarrow> (p, Some e)
      | (p, None) \<Rightarrow>
          if truthy (get p k) then
            (case get p k of JStr s \<Rightarrow> (p(k \<mapsto> JStr (trim s)), None) | _ \<Rightarrow> (p, Some TypeError))
          else (p, None))"

definition normalizeCity :: "feature \<Rightarrow> feature \<times> error option" where
  "normalizeCity feature =
     (if \<not> validPoint feature then (feature, None)
      else
        (case properties feature of
           None \<Rightarrow> (feature, Some TypeError)
         | Some p \<Rightarrow>
             let cityField = js_or (get p ''NAME'') (get p ''City'') in
             if truthy cityField then
               (case trimKey ''City'' (trimKey ''NAME'' (p, None)) of
                  (p', e) \<Rightarrow> (feature\<lparr>properties := Some p'\<rparr>, e))
             else (feature, None)))"

definition pointFeature :: "props \<Rightarrow> feature" where
  "pointFeature p =
     \<lparr>fid = JUndefined,
      geometry = Some \<lparr>gtype = ''Point'', coordinates = CArr [CNum (- 80), CNum 25]\<rparr>,
      properties = Some p\<rparr>"

section \<open>Filter and aggregation engine\<close>

text \<open>
  The filter selection: the selected infrastructure types and disaster-focus values
  (values taken from the features, compared by \<^verbatim>\<open>Array.prototype.includes\<close>, which on
  these values is equality) and the selected city, a string that is empty for
  ``all cities''.
\<close>

record filterSelection =
  selectedTypes :: "jsval list"
  selectedDisasterFocus :: "jsval list"
  selectedCity :: string

text \<open>
  The three fields a filter reads, as each filter of the source computes them:
  \<^verbatim>\<open>
  const props = feature.properties || {};
  const type = props['Infrastruc'] || props['Infrastructure Type'] || props['Type'];
  const disasterFocus = props['Disaster_F'] || props['Disaster Focus'];
  const city = (props['NAME'] || props['City']) ? (props['NAME'] || props['City']).trim()
                                                : (props['NAME'] || props['City']);
  \<close>
  \<^verbatim>\<open>.trim()\<close> on a truthy value that is not a string (a number other than 0 and NaN)
  raises a TypeError.
\<close>

definition featureType :: "feature \<Rightarrow> jsval" where
  "featureType feature =
     (let props = propsOrEmpty feature
      in js_or (js_or (get props ''Infrastruc'') (get props ''Infrastructure Type''))
           (get props ''Type''))"

definition featureFocus :: "feature \<Rightarrow> jsval" where
  "featureFocus feature =
     (let props = propsOrEmpty feature
      in js_or (get props ''Disaster_F'') (get props ''Disaster Focus''))"

definition cityField :: "feature \<Rightarrow> jsval" where
  "cityField feature =
     (let props = propsOrEmpty feature in js_or (get props ''NAME'') (get props ''City''))"

definition featureCity :: "feature \<Rightarrow> error + jsval" where
  "featureCity feature =
     (if truthy (cityField feature) then
        (case cityField feature of JStr s \<Rightarrow> Inr (JStr (trim s)) | _ \<Rightarrow> Inl TypeError)
      else Inr (cityField feature))"

text \<open>
  The predicate of \<^verbatim>\<open>filteredStats\<close>:
  \<^verbatim>\<open>
  const typeMatch = selectedTypes.length === 0 || selectedTypes.includes(type);
  const disasterMatch = selectedDisasterFocus.length === 0 || selectedDisasterFocus.includes(disasterFocus);
  const selectedCityTrimmed = selectedCity ? selectedCity.trim() : selectedCity;
  const cityMatch = !selectedCityTrimmed || selectedCityTrimmed === '' || city === selectedCityTrimmed;
  return typeMatch && disasterMatch && cityMatch;
  \<close>
\<close>

definition statsPredicate :: "filterSelection \<Rightarrow> feature \<Rightarrow> error + bool" where
  "statsPredicate sel feature =
     (let type = featureType feature;
          disasterFocus = featureFocus feature
      in case featureCity feature of
           Inl e \<Rightarrow> Inl e
         | Inr city \<Rightarrow>
             let typeMatch = (length (selectedTypes sel) = 0 \<or> type \<in> set (selectedTypes sel));
                 disasterMatch = (length (selectedDisasterFocus sel) = 0
                                   \<or> disasterFocus \<in> set (selectedDisasterFocus sel));
                 selectedCityTrimmed =
                   (if selectedCity sel \<noteq> [] then trim (selectedCity sel) else selectedCity sel);
                 cityMatch = (selectedCityTrimmed = [] \<or> selectedCityTrimmed = ''''
                               \<or> city = JStr selectedCityTrimmed)
             in Inr (typeMatch \<and> disasterMatch \<and> cityMatch))"

text \<open>The predicate of \<^verbatim>\<open>pieChartData\<close>, which the source writes out a second time.\<close>

definition piePredicate :: "filterSelection \<Rightarrow> feature \<Rightarrow> error + bool" where
  "piePredicate sel feature =
     (let type = featureType feature;
          disasterFocus = featureFocus feature
      in case featureCity feature of
           Inl e \<Rightarrow> Inl e
         | Inr city \<Rightarrow>
             let typeMatch = (length (selectedTypes sel) = 0 \<or> type \<in> set (selectedTypes sel));
                 disasterMatch = (length (selectedDisasterFocus sel) = 0
                                   \<or> disasterFocus \<in> set (selectedDisasterFocus sel));
                 selectedCityTrimmed =
                   (if selectedCity sel \<noteq> [] then trim (selectedCity sel) else selectedCity sel);
                 cityMatch = (selectedCityTrimmed = [] \<or> selectedCityTrimmed = ''''
                               \<or> city = JStr selectedCityTrimmed)
             in Inr (typeMatch \<and> disasterMatch \<and> cityMatch))"

text \<open>
  The test \<open>shouldShow\<close> of the marker effect, which also reads \<^verbatim>\<open>Categories\<close> and
  does not use it.
\<close>

definition shouldShow :: "filterSelection \<Rightarrow> feature \<Rightarrow> error + bool" where
  "shouldShow sel feature =
     (let type = featureType feature;
          category = get (propsOrEmpty feature) ''Categories'';
          disasterFocus = featureFocus feature
      in case featureCity feature of
           Inl e \<Rightarrow> Inl e
         | Inr city \<Rightarrow>
             let typeMatch = (length (selectedTypes sel) = 0 \<or> type \<in> set (selectedTypes sel));
                 disasterMatch = (length (selectedDisasterFocus sel) = 0
                                   \<or> disasterFocus \<in> set (selectedDisasterFocus sel));
                 selectedCityTrimmed =
                   (if selectedCity sel \<noteq> [] then trim (selectedCity sel) else selectedCity sel);
                 cityMatch = (selectedCityTrimmed = [] \<or> selectedCityTrimmed = ''''
                               \<or> city = JStr selectedCityTrimmed)
             in Inr (typeMatch \<and> disasterMatch \<and> cityMatch))"

text \<open>
  \<^verbatim>\<open>Array.prototype.filter\<close> with a predicate that may raise: the first error ends
  the computation.
\<close>

fun filterE :: "('a \<Rightarrow> error + bool) \<Rightarrow> 'a list \<Rightarrow> error + 'a list" where
  "filterE p [] = Inr []"
| "filterE p (x # xs) =
     (case p x of
        Inl e \<Rightarrow> Inl e
      | Inr b \<Rightarrow>
          (case filterE p xs of
             Inl e \<Rightarrow> Inl e
           | Inr ys \<Rightarrow> Inr (if b then x # ys else ys)))"




























text \<open>
  The visible set as the specification words it: no constraint from an empty
  selection, membership within a dimension, conjunction across dimensions. The selected
  city counts as empty when nothing is left of it after trimming.
\<close>

definition trimmedCity :: "feature \<Rightarrow> jsval" where
  "trimmedCity feature = (case cityField feature of JStr s \<Rightarrow> JStr (trim s) | v \<Rightarrow> v)"

definition visible :: "filterSelection \<Rightarrow> feature \<Rightarrow> bool" where
  "visible sel feature =
     ((selectedTypes sel = [] \<or> featureType feature \<in> set (selectedTypes sel))
      \<and> (selectedDisasterFocus sel = [] \<or> featureFocus feature \<in> set (selectedDisasterFocus sel))
      \<and> (trim (selectedCity sel) = [] \<or> trimmedCity feature = JStr (trim (selectedCity sel))))"

text \<open>The same with the selected city counted as empty only when it is the empty string.\<close>

definition visibleAsStated :: "filterSelection \<Rightarrow> feature \<Rightarrow> bool" where
  "visibleAsStated sel feature =
     ((selectedTypes sel = [] \<or> featureType feature \<in> set (selectedTypes sel))
      \<and> (selectedDisasterFocus sel = [] \<or> featureFocus feature \<in> set (selectedDisasterFocus sel))
      \<and> (selectedCity sel = [] \<or> trimmedCity feature = JStr (trim (selectedCity sel))))"

text \<open>A city value on which \<^verbatim>\<open>.trim()\<close> can be called, or which is never trimmed.\<close>

definition cityTrimmable :: "feature \<Rightarrow> bool" where
  "cityTrimmable feature = (isString (cityField feature) \<or> \<not> truthy (cityField feature))"





text \<open>A feature with the given properties and no geometry, and a selection of nothing.\<close>

definition withProps :: "(string \<times> jsval) list \<Rightarrow> feature" where
  "withProps kvs = \<lparr>fid = JUndefined, geometry = None, properties = Some (map_of kvs)\<rparr>"

definition noSelection :: filterSelection where
  "noSelection = \<lparr>selectedTypes = [], selectedDisasterFocus = [], selectedCity = ''''\<rparr>"

section \<open>Evaluation on concrete inputs\<close>

lemmas text_defs = trim_def isWhiteSpace_def Let_def

lemmas num_defs = Number_def parseFloat_def strDecimalLiteral_def
  strUnsignedDecimalLiteral_def strExponent_def isDigit_def digitsValue_def digitVal_def
  toDouble_def scale_def

section \<open>Numeric coercion\<close>

lemma keptChar_chars: "keptChar c = (c \<in> set ''0123456789eE.+-'')"
  by (auto simp: keptChar_def isDigit_def)

lemma parseNumericValue_cases:
  "parseNumericValue fmt v = JNull \<or> (\<exists>r. parseNumericValue fmt v = JNum (Finite r))"
  by (cases "(fmt, v)" rule: parseNumericValue.cases) (auto simp: Let_def elim: isFinite.elims)

text \<open>A literal beyond the range of the doubles reads as an infinity and is coerced to null.\<close>

lemma overflow_example: "parseNumericValue (\<lambda>r. []) (JStr ''1e309'') = JNull"
proof -
  have big: "(2::real) ^ 1024 - 2 ^ 970 \<le> 10 ^ 309"
    by simp
  have lit: "strDecimalLiteral ''1e309'' = Some (toDouble (scale 1 309), [])"
    by (simp add: strDecimalLiteral_def strUnsignedDecimalLiteral_def strExponent_def
        isDigit_def digitsValue_def digitVal_def Let_def)
  have "scale 1 309 = 10 ^ 309"
    by (simp add: scale_def)
  then have "toDouble (scale 1 309) = PosInf"
    unfolding toDouble_def using big by simp
  with lit have "Number ''1e309'' = PosInf"
    by (simp add: Number_def trim_def isWhiteSpace_def)
  moreover have "cleaned ''1e309'' = ''1e309''"
    by (simp add: cleaned_def keptChar_def isDigit_def)
  ultimately show ?thesis by simp
qed

text \<open>
  C7. For every input value (string, number, null or undefined) and every rendering of
  finite numbers, \<open>parseNumericValue\<close> returns null or a finite number, so never NaN
  and never an infinity; a finite number is returned unchanged, null and undefined give
  null, and a string is parsed after every character other than a digit, a sign, the
  decimal point and the exponent markers \<^verbatim>\<open>e\<close>, \<^verbatim>\<open>E\<close> has been removed. The function
  has no raising branch: \<^verbatim>\<open>String\<close> and \<^verbatim>\<open>Number\<close> do not throw on these values.
\<close>

theorem parseNumericValue_finite_or_null:
  "(parseNumericValue fmt v = JNull \<or> (\<exists>r. parseNumericValue fmt v = JNum (Finite r)))
   \<and> parseNumericValue fmt (JNum (Finite x)) = JNum (Finite x)
   \<and> parseNumericValue fmt JNull = JNull
   \<and> parseNumericValue fmt JUndefined = JNull
   \<and> parseNumericValue fmt (JStr s) =
       (case Number (filter (\<lambda>c. c \<in> set ''0123456789eE.+-'') s) of
          Finite r \<Rightarrow> JNum (Finite r) | _ \<Rightarrow> JNull)"
proof -
  have "filter keptChar s = filter (\<lambda>c. c \<in> set ''0123456789eE.+-'') s"
    by (rule filter_cong) (simp_all only: keptChar_chars)
  then have "parseNumericValue fmt (JStr s) =
       (case Number (filter (\<lambda>c. c \<in> set ''0123456789eE.+-'') s) of
          Finite r \<Rightarrow> JNum (Finite r) | _ \<Rightarrow> JNull)"
    by (simp add: cleaned_def Let_def split: jsnum.splits)
  with parseNumericValue_cases [of fmt v] show ?thesis by simp
qed

theorem parseNumericValue_witness:
  "parseNumericValue (\<lambda>r. []) (JStr ''$1,234.5'') = JNum (Finite 1234.5)
   \<and> parseNumericValue (\<lambda>r. []) (JStr ''n/a'') = JNum (Finite 0)
   \<and> parseNumericValue (\<lambda>r. []) (JStr ''1-2'') = JNull
   \<and> parseNumericValue (\<lambda>r. []) (JNum NaN) = JNum (Finite 0)
   \<and> parseNumericValue (\<lambda>r. []) (JNum NegInf) = JNull
   \<and> parseNumericValue (\<lambda>r. []) (JStr ''1e309'') = JNull"
  using parseNumericValue_finite_or_null [of "\<lambda>r. []" "JStr ''$1,234.5''" 0 "''$1,234.5''"]
    parseNumericValue_finite_or_null [of "\<lambda>r. []" "JStr ''n/a''" 0 "''n/a''"]
    parseNumericValue_finite_or_null [of "\<lambda>r. []" "JStr ''1-2''" 0 "''1-2''"]
    overflow_example
  by (simp add: cleaned_def keptChar_def num_defs text_defs)

section \<open>Reprojection of one coordinate\<close>

text \<open>
  C5. Over the reals, \<open>toWgs84Coordinate\<close> computes \<open>lon = (x / R) * 180\<close> and
  \<open>lat = (180 / pi) * (2 * arctan (exp ((y / R) * 180 * pi / 180)) - pi / 2)\<close> with
  \<open>R = 20037508.34\<close>, and it maps the projected origin \<open>(0, 0)\<close> to \<open>(0, 0)\<close>.
\<close>

theorem toWgs84Coordinate_formula:
  "toWgs84Coordinate (x, y) =
     ((x / 20037508.34) * 180,
      (180 / pi) * (2 * arctan (exp ((y / 20037508.34) * 180 * pi / 180)) - pi / 2))
   \<and> toWgs84Coordinate (0, 0) = (0, 0)"
  by (simp add: toWgs84Coordinate_def originShift_def arctan_one mult.commute)

theorem toWgs84Coordinate_witness:
  "toWgs84Coordinate (20037508.34, 0) = (180, 0) \<and> toWgs84Coordinate (0, 0) = (0, 0)"
  using toWgs84Coordinate_formula [of "20037508.34" 0]
  by (simp add: arctan_one)

section \<open>Coordinate normalizer\<close>












lemma coordXY_reprojectedCoord:
  "coordXY cs = Some xy \<Longrightarrow> coordXY (reprojectedCoord cs) = Some (toWgs84Coordinate xy)"
  by (simp add: reprojectedCoord_def split: prod.splits)






















section \<open>Trimming\<close>

lemma dropWhile_all: "(\<forall>c\<in>set (dropWhile P s). P c) \<longleftrightarrow> (\<forall>c\<in>set s. P c)"
proof (cases "dropWhile P s")
  case Nil
  then show ?thesis by (auto dest: set_dropWhileD)
next
  case (Cons a as)
  then have "\<not> P a" using hd_dropWhile [of P s] by simp
  moreover have "a \<in> set (dropWhile P s)" "a \<in> set s"
    using Cons set_dropWhileD [of a P s] by simp_all
  ultimately show ?thesis by blast
qed

lemma trim_empty_iff: "trim s = [] \<longleftrightarrow> (\<forall>c\<in>set s. isWhiteSpace c)"
  by (simp add: trim_def dropWhile_all)

section \<open>Search state\<close>

text \<open>
  C6. A query that is empty or all white space leaves the search in the state ``no
  active search'': the results are cleared, the dropdown flag is off, and neither the
  result list nor the no-results message is rendered. A query with something left after
  trimming that matches no record gives the state ``no results found'': the results are
  empty as well, but the dropdown flag is on and the no-results message is rendered. The
  two states differ.
\<close>

theorem search_idle_or_no_results:
  assumes "\<forall>c\<in>set q. isWhiteSpace c"
    and "trim q' \<noteq> []"
    and "searchProjects q' d = []"
  shows "searchResults (searchEffect searchProjects q d st) = []
    \<and> \<not> showSearchResults (searchEffect searchProjects q d st)
    \<and> \<not> resultsDropdown (searchEffect searchProjects q d st)
    \<and> \<not> noResultsMessage q (searchEffect searchProjects q d st)
    \<and> searchResults (searchEffect searchProjects q' d st') = []
    \<and> showSearchResults (searchEffect searchProjects q' d st')
    \<and> \<not> resultsDropdown (searchEffect searchProjects q' d st')
    \<and> noResultsMessage q' (searchEffect searchProjects q' d st')
    \<and> searchEffect searchProjects q d st \<noteq> searchEffect searchProjects q' d st'"
proof -
  have blank: "trim q = []"
    using assms(1) by (simp add: trim_empty_iff)
  have idle: "searchEffect searchProjects q d st
      = st\<lparr>searchResults := [], showSearchResults := False, selectedResultIndex := - 1\<rparr>"
    by (simp add: searchEffect_def blank)
  have none: "searchEffect searchProjects q' d st'
      = st'\<lparr>searchResults := [], showSearchResults := True, selectedResultIndex := - 1\<rparr>"
    using assms(2,3) by (simp add: searchEffect_def)
  have "showSearchResults (searchEffect searchProjects q d st)
      \<noteq> showSearchResults (searchEffect searchProjects q' d st')"
    by (simp add: idle none)
  then have "searchEffect searchProjects q d st \<noteq> searchEffect searchProjects q' d st'"
    by metis
  then show ?thesis
    using assms(2) by (simp add: idle none resultsDropdown_def noResultsMessage_def blank)
qed

theorem search_idle_or_no_results_witness:
  "searchEffect (\<lambda>q d. []) ''  '' () \<lparr>searchResults = [1::nat], showSearchResults = True, selectedResultIndex = 0\<rparr>
     = \<lparr>searchResults = [], showSearchResults = False, selectedResultIndex = - 1\<rparr>
   \<and> searchEffect (\<lambda>q d. []) ''zzz'' () \<lparr>searchResults = [1::nat], showSearchResults = True, selectedResultIndex = 0\<rparr>
     = \<lparr>searchResults = [], showSearchResults = True, selectedResultIndex = - 1\<rparr>
   \<and> noResultsMessage ''zzz''
        (searchEffect (\<lambda>q d. []) ''zzz'' () \<lparr>searchResults = [1::nat], showSearchResults = True, selectedResultIndex = 0\<rparr>)
   \<and> \<not> noResultsMessage ''  ''
        (searchEffect (\<lambda>q d. []) ''  '' () \<lparr>searchResults = [1::nat], showSearchResults = True, selectedResultIndex = 0\<rparr>)"
proof -
  have h1: "\<forall>c\<in>set ''  ''. isWhiteSpace c"
    by (simp add: isWhiteSpace_def)
  have h2: "trim ''zzz'' \<noteq> []"
    by (simp add: trim_def isWhiteSpace_def)
  show ?thesis
    using search_idle_or_no_results [of "''  ''" "''zzz''" "\<lambda>q d. []" "()"
           "\<lparr>searchResults = [1::nat], showSearchResults = True, selectedResultIndex = 0\<rparr>"
           "\<lparr>searchResults = [1::nat], showSearchResults = True, selectedResultIndex = 0\<rparr>"]
      h1 h2
    by (simp add: searchEffect_def)
qed

section \<open>Highlighting\<close>

lemma concat_splitLoop: "concat (splitLoop canon pat cur rest) = cur @ rest"
  by (induction canon pat cur rest rule: splitLoop.induct) (auto simp: matchesAt_def)

lemma concat_split: "concat (split canon pat text) = text"
  by (simp add: split_def concat_splitLoop)

lemma concat_filter_nonempty: "concat (filter (\<lambda>part. part \<noteq> []) xs) = concat xs"
  by (induction xs) auto

lemma pieceText_mark: "pieceText (if b then Highlighted x else Plain x) = x"
  by simp

lemma highlightText_text:
  "renderedText (highlightText canon lower (JStr text) query) = JStr text"
  by (simp add: Let_def comp_def concat_filter_nonempty concat_split pieceText_mark
      del: pieceText.simps)

lemma highlightText_blank_query:
  "trim query = [] \<Longrightarrow> highlightText canon lower v query = Verbatim v"
  by (cases v) simp_all

lemma highlightText_not_string:
  "\<not> isString v \<Longrightarrow> highlightText canon lower v query = Verbatim v"
  by (cases v) simp_all

text \<open>
  C10. For every string text and every query, whatever the case folding, the pieces of
  \<open>highlightText\<close> concatenated in order are the text; and a text that is not a string,
  or a query that is empty or all white space, gives the text verbatim as one piece
  without highlight.
\<close>

theorem highlightText_preserves_text:
  "renderedText (highlightText canon lower (JStr text) query) = JStr text
   \<and> ((\<forall>c\<in>set query'. isWhiteSpace c) \<longrightarrow> highlightText canon lower v query' = Verbatim v)
   \<and> (\<not> isString v' \<longrightarrow> highlightText canon lower v' query = Verbatim v')"
proof (intro conjI impI)
  show "renderedText (highlightText canon lower (JStr text) query) = JStr text"
    by (rule highlightText_text)
next
  assume "\<forall>c\<in>set query'. isWhiteSpace c"
  then have "trim query' = []" by (simp add: trim_empty_iff)
  then show "highlightText canon lower v query' = Verbatim v"
    by (rule highlightText_blank_query)
next
  assume "\<not> isString v'"
  then show "highlightText canon lower v' query = Verbatim v'"
    by (rule highlightText_not_string)
qed

lemmas split_defs = split_def matchesAt_def asciiUpper_def asciiLower_def trim_def
  isWhiteSpace_def Let_def

theorem highlightText_witness:
  "highlightText asciiUpper asciiLower (JStr ''Miami'') '' MI ''
     = Spans [Highlighted ''Mi'', Plain ''a'', Highlighted ''mi'']
   \<and> renderedText (highlightText asciiUpper asciiLower (JStr ''Miami'') '' MI '') = JStr ''Miami''
   \<and> highlightText asciiUpper asciiLower (JStr ''Miami'') ''  '' = Verbatim (JStr ''Miami'')
   \<and> highlightText asciiUpper asciiLower JNull '' MI '' = Verbatim JNull"
proof -
  have h: "\<forall>c\<in>set ''  ''. isWhiteSpace c"
    by (simp add: isWhiteSpace_def)
  have e: "highlightText asciiUpper asciiLower (JStr ''Miami'') '' MI ''
     = Spans [Highlighted ''Mi'', Plain ''a'', Highlighted ''mi'']"
    by (simp add: split_defs)
  from highlightText_preserves_text
    [of asciiUpper asciiLower "''Miami''" "'' MI ''" "''  ''" "JStr ''Miami''" JNull]
    h e
  show ?thesis by simp
qed


section \<open>Ingestion\<close>

lemma derivedFields_keys: "map fst (derivedFields fmt tbl p) = derivedKeys"
  by (simp add: derivedFields_def derivedKeys_def Let_def)

lemma processFeature_properties:
  "properties (processFeature fmt tbl f i) =
     Some ((\<lambda>k. map_option Held (propsOrEmpty f k))
       (''__riskRating'' \<mapsto> Held (js_or (get (propsOrEmpty f) riskRatingKey) JNull),
        ''__population'' \<mapsto> Held (parseNumericValue fmt (get (propsOrEmpty f) populationKey)),
        ''__pred3PE'' \<mapsto>
          (if \<not> truthy (get (propsOrEmpty f) geoidKey) then Held JNull
           else if String fmt (get (propsOrEmpty f) geoidKey) = ''__proto__''
             then Member ''__proto__''
           else
             (case tbl (String fmt (get (propsOrEmpty f) geoidKey)) of
                Some n \<Rightarrow> Held (JNum n)
              | None \<Rightarrow>
                  if String fmt (get (propsOrEmpty f) geoidKey) \<in> set objectPrototype
                  then Member (String fmt (get (propsOrEmpty f) geoidKey))
                  else Held JNull))))"
  by (simp add: processFeature_def derivedFields_def lookupPred3PE_def Let_def
      split: option.splits)

lemma derivedKeys_fresh: "distinct derivedKeys \<and> set derivedKeys \<inter> set rawKeysRead = {}"
  by (simp add: derivedKeys_def rawKeysRead_def riskRatingKey_def populationKey_def geoidKey_def)

lemma processFrom_eq:
  "processFrom fmt tbl i (map Some gs) =
     Inr (map (\<lambda>jg. processFeature fmt tbl (snd jg) (fst jg)) (enumerate i gs))"
  by (induction gs arbitrary: i) simp_all

lemma processFrom_null: "None \<in> set fs \<Longrightarrow> processFrom fmt tbl i fs = Inl TypeError"
proof (induction fs arbitrary: i)
  case Nil
  then show ?case by simp
next
  case (Cons f fs)
  then show ?case by (cases f) auto
qed

lemma trimKey_other: "k' \<noteq> k \<Longrightarrow> fst (trimKey k st) k' = fst st k'"
  by (auto simp: trimKey_def split: prod.splits option.splits jsval.splits)

lemma trimKey_same:
  "fst (trimKey k (p, None)) k
     = map_option (\<lambda>v. case v of JStr s \<Rightarrow> JStr (trim s) | _ \<Rightarrow> v) (p k)"
  by (cases "p k") (auto simp: trimKey_def get_def trim_def split: jsval.splits)

lemma trimKey_error:
  "snd (trimKey k (p, None))
     = (if truthy (get p k) \<and> \<not> isString (get p k) then Some TypeError else None)"
  by (cases "get p k") (auto simp: trimKey_def)

lemma trimKey_after_error: "trimKey k (p, Some e) = (p, Some e)"
  by (simp add: trimKey_def)

lemma normalizeCity_invalid: "\<not> validPoint g \<Longrightarrow> normalizeCity g = (g, None)"
  by (simp add: normalizeCity_def)

lemma normalizeCity_null: "validPoint g \<Longrightarrow> properties g = None \<Longrightarrow> normalizeCity g = (g, Some TypeError)"
  by (simp add: normalizeCity_def)

lemma normalizeCity_no_city:
  "validPoint g \<Longrightarrow> properties g = Some p \<Longrightarrow> \<not> truthy (get p ''NAME'') \<Longrightarrow>
   \<not> truthy (get p ''City'') \<Longrightarrow> normalizeCity g = (g, None)"
  by (simp add: normalizeCity_def js_or_def)

lemma normalizeCity_city:
  "validPoint g \<Longrightarrow> properties g = Some p \<Longrightarrow> truthy (get p ''NAME'') \<or> truthy (get p ''City'') \<Longrightarrow>
   normalizeCity g =
     (g\<lparr>properties := Some (fst (trimKey ''City'' (trimKey ''NAME'' (p, None))))\<rparr>,
      snd (trimKey ''City'' (trimKey ''NAME'' (p, None))))"
  by (auto simp: normalizeCity_def js_or_def Let_def split: prod.splits)

lemma falsy_trimmed:
  "\<not> truthy v \<Longrightarrow> (case v of JStr s \<Rightarrow> JStr (trim s) | _ \<Rightarrow> v) = v"
  by (cases v) (simp_all add: trim_def)

lemma get_falsy_trimmed:
  "\<not> truthy (get p k) \<Longrightarrow>
   map_option (\<lambda>v. case v of JStr s \<Rightarrow> JStr (trim s) | _ \<Rightarrow> v) (p k) = p k"
  by (cases "p k") (simp_all add: get_def falsy_trimmed)

lemma get_unstring_trimmed:
  "\<not> isString (get p k) \<Longrightarrow>
   map_option (\<lambda>v. case v of JStr s \<Rightarrow> JStr (trim s) | _ \<Rightarrow> v) (p k) = p k"
  by (cases "p k"; cases "get p k") (auto simp: get_def)

lemma trimKey_twice_NAME:
  "fst (trimKey ''City'' (trimKey ''NAME'' (p, None))) ''NAME''
     = map_option (\<lambda>v. case v of JStr s \<Rightarrow> JStr (trim s) | _ \<Rightarrow> v) (p ''NAME'')"
  by (simp add: trimKey_other trimKey_same)

lemma trimKey_twice_City:
  "fst (trimKey ''City'' (trimKey ''NAME'' (p, None))) ''City''
     = (if isString (get p ''NAME'') \<or> \<not> truthy (get p ''NAME'')
        then map_option (\<lambda>v. case v of JStr s \<Rightarrow> JStr (trim s) | _ \<Rightarrow> v) (p ''City'')
        else p ''City'')"
proof (cases "trimKey ''NAME'' (p, None)")
  case (Pair p' e)
  have e: "e = (if truthy (get p ''NAME'') \<and> \<not> isString (get p ''NAME'') then Some TypeError else None)"
    using trimKey_error [of "''NAME''" p] Pair by simp
  have c: "p' ''City'' = p ''City''"
    using trimKey_other [of "''City''" "''NAME''" "(p, None)"] Pair by simp
  show ?thesis
  proof (cases "isString (get p ''NAME'') \<or> \<not> truthy (get p ''NAME'')")
    case True
    then have "e = None" using e by auto
    then show ?thesis using True c trimKey_same [of "''City''" p'] by (simp add: Pair)
  next
    case False
    then have "e = Some TypeError" using e by auto
    then show ?thesis using False c by (simp add: Pair trimKey_after_error)
  qed
qed

lemma trimKey_twice_error:
  "snd (trimKey ''City'' (trimKey ''NAME'' (p, None)))
     = (if (truthy (get p ''NAME'') \<and> \<not> isString (get p ''NAME''))
           \<or> (truthy (get p ''City'') \<and> \<not> isString (get p ''City''))
        then Some TypeError else None)"
proof (cases "trimKey ''NAME'' (p, None)")
  case (Pair p' e)
  have e: "e = (if truthy (get p ''NAME'') \<and> \<not> isString (get p ''NAME'') then Some TypeError else None)"
    using trimKey_error [of "''NAME''" p] Pair by simp
  have c: "get p' ''City'' = get p ''City''"
    using trimKey_other [of "''City''" "''NAME''" "(p, None)"] Pair by (simp add: get_def)
  show ?thesis
  proof (cases "truthy (get p ''NAME'') \<and> \<not> isString (get p ''NAME'')")
    case True
    then have "e = Some TypeError" using e by simp
    then show ?thesis using True by (simp add: Pair trimKey_after_error)
  next
    case False
    then have "e = None" using e by simp
    then show ?thesis using False c trimKey_error [of "''City''" p'] by (simp add: Pair)
  qed
qed

lemma normalizeCity_other:
  assumes "k \<noteq> ''NAME''" and "k \<noteq> ''City''"
  shows "propsOrEmpty (fst (normalizeCity g)) k = propsOrEmpty g k"
proof (cases "validPoint g")
  case False
  then show ?thesis by (simp add: normalizeCity_invalid)
next
  case True
  show ?thesis
  proof (cases "properties g")
    case None
    with True show ?thesis by (simp add: normalizeCity_null)
  next
    case (Some p)
    show ?thesis
    proof (cases "truthy (get p ''NAME'') \<or> truthy (get p ''City'')")
      case False
      with True Some show ?thesis by (simp add: normalizeCity_no_city)
    next
      case c: True
      show ?thesis
        using assms by (simp add: normalizeCity_city [OF True Some c] propsOrEmpty_def Some trimKey_other)
    qed
  qed
qed

lemma normalizeCity_NAME:
  "propsOrEmpty (fst (normalizeCity g)) ''NAME''
     = (if validPoint g
        then map_option (\<lambda>v. case v of JStr s \<Rightarrow> JStr (trim s) | _ \<Rightarrow> v) (propsOrEmpty g ''NAME'')
        else propsOrEmpty g ''NAME'')"
proof (cases "validPoint g")
  case False
  then show ?thesis by (simp add: normalizeCity_invalid)
next
  case True
  show ?thesis
  proof (cases "properties g")
    case None
    with True show ?thesis by (simp add: normalizeCity_null propsOrEmpty_def)
  next
    case (Some p)
    show ?thesis
    proof (cases "truthy (get p ''NAME'') \<or> truthy (get p ''City'')")
      case False
      with True Some show ?thesis
        by (simp add: normalizeCity_no_city propsOrEmpty_def get_falsy_trimmed)
    next
      case c: True
      show ?thesis
        using True by (simp add: normalizeCity_city [OF True Some c] propsOrEmpty_def Some trimKey_twice_NAME)
    qed
  qed
qed

lemma normalizeCity_City:
  "propsOrEmpty (fst (normalizeCity g)) ''City''
     = (if validPoint g \<and> (isString (get (propsOrEmpty g) ''NAME'')
                             \<or> \<not> truthy (get (propsOrEmpty g) ''NAME''))
        then map_option (\<lambda>v. case v of JStr s \<Rightarrow> JStr (trim s) | _ \<Rightarrow> v) (propsOrEmpty g ''City'')
        else propsOrEmpty g ''City'')"
proof (cases "validPoint g")
  case False
  then show ?thesis by (simp add: normalizeCity_invalid)
next
  case True
  show ?thesis
  proof (cases "properties g")
    case None
    with True show ?thesis by (simp add: normalizeCity_null propsOrEmpty_def)
  next
    case (Some p)
    show ?thesis
    proof (cases "truthy (get p ''NAME'') \<or> truthy (get p ''City'')")
      case False
      with True Some show ?thesis
        by (simp add: normalizeCity_no_city propsOrEmpty_def get_falsy_trimmed)
    next
      case c: True
      show ?thesis
        using True by (simp add: normalizeCity_city [OF True Some c] propsOrEmpty_def Some trimKey_twice_City)
    qed
  qed
qed

lemma normalizeCity_error:
  "snd (normalizeCity g)
     = (if validPoint g
           \<and> (properties g = None
              \<or> (truthy (get (propsOrEmpty g) ''NAME'') \<and> \<not> isString (get (propsOrEmpty g) ''NAME''))
              \<or> (truthy (get (propsOrEmpty g) ''City'') \<and> \<not> isString (get (propsOrEmpty g) ''City'')))
        then Some TypeError else None)"
proof (cases "validPoint g")
  case False
  then show ?thesis by (simp add: normalizeCity_invalid)
next
  case True
  show ?thesis
  proof (cases "properties g")
    case None
    with True show ?thesis by (simp add: normalizeCity_null)
  next
    case (Some p)
    show ?thesis
    proof (cases "truthy (get p ''NAME'') \<or> truthy (get p ''City'')")
      case False
      with True Some show ?thesis
        by (auto simp: normalizeCity_no_city propsOrEmpty_def)
    next
      case c: True
      show ?thesis
        using True by (simp add: normalizeCity_city [OF True Some c] propsOrEmpty_def Some trimKey_twice_error)
    qed
  qed
qed

lemma normalizeCity_geometry:
  "geometry (fst (normalizeCity g)) = geometry g \<and> fid (fst (normalizeCity g)) = fid g"
  by (auto simp: normalizeCity_def Let_def split: option.splits prod.splits)

lemmas ingest_defs = processFeature_def derivedFields_def normalizeCity_def pointFeature_def
  propsOrEmpty_def get_def validPoint_def trimKey_def js_or_def lookupPred3PE_def
  objectPrototype_def riskRatingKey_def populationKey_def geoidKey_def derivedKeys_def
  processedFeatures_def trim_def isWhiteSpace_def Let_def

text \<open>
  C8, as the code has it. Ingestion of a census tract builds a new property mapping: the
  object literal defines each of the three derived fields once, under the fixed keys
  \<^verbatim>\<open>__riskRating\<close>, \<^verbatim>\<open>__population\<close> and \<^verbatim>\<open>__pred3PE\<close>, which differ from one
  another and from the raw keys that the ingestion reads, and the collection is mapped to
  one processed feature for each feature, in order. Each derived value is a function of
  the raw properties and of the joined table (for \<^verbatim>\<open>__pred3PE\<close>: null without an
  identifier, the table's own entry, a member of \<^verbatim>\<open>Object.prototype\<close> when the
  identifier names one and the table has no own entry, null otherwise); every other key
  keeps its raw value, and the geometry is kept. Ingestion of a project keeps the
  geometry, the id and every key other than \<^verbatim>\<open>NAME\<close> and \<^verbatim>\<open>City\<close>. On a feature
  with a valid point geometry it stores the trimmed string under \<^verbatim>\<open>NAME\<close> itself, and
  under \<^verbatim>\<open>City\<close> itself unless \<^verbatim>\<open>NAME\<close> is a truthy value that is no string; it
  raises a TypeError exactly when such a feature has no properties or a truthy
  \<^verbatim>\<open>NAME\<close> or \<^verbatim>\<open>City\<close> that is no string.
\<close>

theorem ingestion_frame:
  "distinct derivedKeys \<and> set derivedKeys \<inter> set rawKeysRead = {}
   \<and> map fst (derivedFields fmt tbl (propsOrEmpty f)) = derivedKeys
   \<and> (\<exists>p'. properties (processFeature fmt tbl f i) = Some p'
        \<and> (\<forall>k. k \<notin> set derivedKeys \<longrightarrow> p' k = map_option Held (propsOrEmpty f k))
        \<and> p' ''__riskRating'' = Some (Held (js_or (get (propsOrEmpty f) riskRatingKey) JNull))
        \<and> p' ''__population''
            = Some (Held (parseNumericValue fmt (get (propsOrEmpty f) populationKey)))
        \<and> p' ''__pred3PE'' =
            Some (if \<not> truthy (get (propsOrEmpty f) geoidKey) then Held JNull
                  else if String fmt (get (propsOrEmpty f) geoidKey) = ''__proto__''
                    then Member ''__proto__''
                  else
                    (case tbl (String fmt (get (propsOrEmpty f) geoidKey)) of
                       Some n \<Rightarrow> Held (JNum n)
                     | None \<Rightarrow>
                         if String fmt (get (propsOrEmpty f) geoidKey) \<in> set objectPrototype
                         then Member (String fmt (get (propsOrEmpty f) geoidKey))
                         else Held JNull)))
   \<and> geometry (processFeature fmt tbl f i) = geometry f
   \<and> processedFeatures fmt tbl \<lparr>features = Some (map Some gs)\<rparr>
       = Inr (map (\<lambda>jg. processFeature fmt tbl (snd jg) (fst jg)) (enumerate 0 gs))
   \<and> geometry (fst (normalizeCity g)) = geometry g
   \<and> fid (fst (normalizeCity g)) = fid g
   \<and> (\<forall>k. k \<noteq> ''NAME'' \<longrightarrow> k \<noteq> ''City'' \<longrightarrow>
         propsOrEmpty (fst (normalizeCity g)) k = propsOrEmpty g k)
   \<and> propsOrEmpty (fst (normalizeCity g)) ''NAME''
       = (if validPoint g
          then map_option (\<lambda>v. case v of JStr s \<Rightarrow> JStr (trim s) | _ \<Rightarrow> v)
                 (propsOrEmpty g ''NAME'')
          else propsOrEmpty g ''NAME'')
   \<and> propsOrEmpty (fst (normalizeCity g)) ''City''
       = (if validPoint g \<and> (isString (get (propsOrEmpty g) ''NAME'')
                               \<or> \<not> truthy (get (propsOrEmpty g) ''NAME''))
          then map_option (\<lambda>v. case v of JStr s \<Rightarrow> JStr (trim s) | _ \<Rightarrow> v)
                 (propsOrEmpty g ''City'')
          else propsOrEmpty g ''City'')
   \<and> snd (normalizeCity g)
       = (if validPoint g
             \<and> (properties g = None
                \<or> (truthy (get (propsOrEmpty g) ''NAME'')
                    \<and> \<not> isString (get (propsOrEmpty g) ''NAME''))
                \<or> (truthy (get (propsOrEmpty g) ''City'')
                    \<and> \<not> isString (get (propsOrEmpty g) ''City'')))
          then Some TypeError else None)"
proof -
  have census: "\<exists>p'. properties (processFeature fmt tbl f i) = Some p'
        \<and> (\<forall>k. k \<notin> set derivedKeys \<longrightarrow> p' k = map_option Held (propsOrEmpty f k))
        \<and> p' ''__riskRating'' = Some (Held (js_or (get (propsOrEmpty f) riskRatingKey) JNull))
        \<and> p' ''__population''
            = Some (Held (parseNumericValue fmt (get (propsOrEmpty f) populationKey)))
        \<and> p' ''__pred3PE'' =
            Some (if \<not> truthy (get (propsOrEmpty f) geoidKey) then Held JNull
                  else if String fmt (get (propsOrEmpty f) geoidKey) = ''__proto__''
                    then Member ''__proto__''
                  else
                    (case tbl (String fmt (get (propsOrEmpty f) geoidKey)) of
                       Some n \<Rightarrow> Held (JNum n)
                     | None \<Rightarrow>
                         if String fmt (get (propsOrEmpty f) geoidKey) \<in> set objectPrototype
                         then Member (String fmt (get (propsOrEmpty f) geoidKey))
                         else Held JNull))"
    by (simp add: processFeature_properties derivedKeys_def)
  have geo: "geometry (processFeature fmt tbl f i) = geometry f"
    by (simp add: processFeature_def Let_def)
  have each: "processedFeatures fmt tbl \<lparr>features = Some (map Some gs)\<rparr>
       = Inr (map (\<lambda>jg. processFeature fmt tbl (snd jg) (fst jg)) (enumerate 0 gs))"
    by (simp add: processedFeatures_def processFrom_eq)
  have other: "\<forall>k. k \<noteq> ''NAME'' \<longrightarrow> k \<noteq> ''City'' \<longrightarrow>
         propsOrEmpty (fst (normalizeCity g)) k = propsOrEmpty g k"
    by (simp add: normalizeCity_other)
  from derivedKeys_fresh have fresh1: "distinct derivedKeys"
    and fresh2: "set derivedKeys \<inter> set rawKeysRead = {}"
    by blast+
  from normalizeCity_geometry [of g] have g1: "geometry (fst (normalizeCity g)) = geometry g"
    and g2: "fid (fst (normalizeCity g)) = fid g"
    by blast+
  show ?thesis
    apply (intro conjI)
                apply (rule fresh1)
               apply (rule fresh2)
              apply (rule derivedFields_keys)
             apply (rule census)
            apply (rule geo)
           apply (rule each)
          apply (rule g1)
         apply (rule g2)
        apply (rule other)
       apply (rule normalizeCity_NAME)
      apply (rule normalizeCity_City)
    apply (rule normalizeCity_error)
    done
qed

theorem ingestion_frame_witness:
  "processedFeatures (\<lambda>r. []) [''12086000107'' \<mapsto> Finite 41]
      \<lparr>features = Some [Some (pointFeature [''L0Census_Tracts.GEOID'' \<mapsto> JStr ''12086000107'']),
                         Some (pointFeature [''L0Census_Tracts.GEOID'' \<mapsto> JStr ''toString''])]\<rparr>
     = Inr [\<lparr>fid = JStr ''12086000107'',
             geometry = Some \<lparr>gtype = ''Point'', coordinates = CArr [CNum (- 80), CNum 25]\<rparr>,
             properties = Some [''L0Census_Tracts.GEOID'' \<mapsto> Held (JStr ''12086000107''),
                                ''__riskRating'' \<mapsto> Held JNull, ''__population'' \<mapsto> Held JNull,
                                ''__pred3PE'' \<mapsto> Held (JNum (Finite 41))]\<rparr>,
            \<lparr>fid = JStr ''toString'',
             geometry = Some \<lparr>gtype = ''Point'', coordinates = CArr [CNum (- 80), CNum 25]\<rparr>,
             properties = Some [''L0Census_Tracts.GEOID'' \<mapsto> Held (JStr ''toString''),
                                ''__riskRating'' \<mapsto> Held JNull, ''__population'' \<mapsto> Held JNull,
                                ''__pred3PE'' \<mapsto> Member ''toString'']\<rparr>]
   \<and> normalizeCity (pointFeature [''NAME'' \<mapsto> JStr '' Miami '', ''City'' \<mapsto> JStr ''Doral '',
                                    ''Type'' \<mapsto> JStr ''Blue''])
     = (pointFeature [''NAME'' \<mapsto> JStr ''Miami'', ''City'' \<mapsto> JStr ''Doral'',
                      ''Type'' \<mapsto> JStr ''Blue''], None)
   \<and> normalizeCity (pointFeature [''NAME'' \<mapsto> JNum (Finite 7), ''City'' \<mapsto> JStr ''Doral ''])
     = (pointFeature [''NAME'' \<mapsto> JNum (Finite 7), ''City'' \<mapsto> JStr ''Doral ''], Some TypeError)"
  using ingestion_frame [of "\<lambda>r. []" "[''12086000107'' \<mapsto> Finite 41]"
      "pointFeature [''L0Census_Tracts.GEOID'' \<mapsto> JStr ''12086000107'']" 0
      "[pointFeature [''L0Census_Tracts.GEOID'' \<mapsto> JStr ''12086000107''],
        pointFeature [''L0Census_Tracts.GEOID'' \<mapsto> JStr ''toString'']]"
      "pointFeature [''NAME'' \<mapsto> JStr '' Miami '', ''City'' \<mapsto> JStr ''Doral '',
                     ''Type'' \<mapsto> JStr ''Blue'']"]
  by (auto simp: ingest_defs rawKeysRead_def nullish_def fun_eq_iff)

text \<open>
  Ingestion does not leave every raw key as it was, and a derived value is not always
  under a key of its own: the marker loop overwrites \<^verbatim>\<open>NAME\<close> with the trimmed city,
  and a raw property that is called \<^verbatim>\<open>__population\<close> is overwritten by the derived
  one.
\<close>

theorem ingestion_raw_key_counterexample:
  "get (propsOrEmpty (pointFeature [''NAME'' \<mapsto> JStr '' Miami ''])) ''NAME'' = JStr '' Miami ''
   \<and> get (propsOrEmpty (fst (normalizeCity (pointFeature [''NAME'' \<mapsto> JStr '' Miami ''])))) ''NAME''
       = JStr ''Miami''
   \<and> get (propsOrEmpty (pointFeature [''__population'' \<mapsto> JStr ''raw''])) ''__population''
       = JStr ''raw''
   \<and> properties (processFeature (\<lambda>r. []) Map.empty
          (pointFeature [''__population'' \<mapsto> JStr ''raw'']) 0)
       = Some [''__population'' \<mapsto> Held JNull, ''__riskRating'' \<mapsto> Held JNull,
               ''__pred3PE'' \<mapsto> Held JNull]"
  by (auto simp: ingest_defs fun_eq_iff)

section \<open>Filter engine\<close>

lemma trim_Nil: "trim [] = []"
  by (simp add: trim_def)

lemma featureCity_cases:
  "featureCity f = (if cityTrimmable f then Inr (trimmedCity f) else Inl TypeError)"
  by (cases "cityField f")
    (auto simp: featureCity_def cityTrimmable_def trimmedCity_def trim_Nil)

lemma selectedCityTrimmed:
  "(if selectedCity sel \<noteq> [] then trim (selectedCity sel) else selectedCity sel)
     = trim (selectedCity sel)"
  by (simp add: trim_Nil)

lemma statsPredicate_cases:
  "statsPredicate sel f = (if cityTrimmable f then Inr (visible sel f) else Inl TypeError)"
  unfolding statsPredicate_def featureCity_cases selectedCityTrimmed
  by (simp add: visible_def Let_def)

lemma shouldShow_cases:
  "shouldShow sel f = (if cityTrimmable f then Inr (visible sel f) else Inl TypeError)"
  unfolding shouldShow_def featureCity_cases selectedCityTrimmed
  by (simp add: visible_def Let_def)

lemma filterE_cases:
  assumes "\<And>x. p x = (if ok x then Inr (q x) else Inl TypeError)"
  shows "filterE p xs = (if \<forall>x\<in>set xs. ok x then Inr (filter q xs) else Inl TypeError)"
proof (induction xs)
  case Nil
  then show ?case by simp
next
  case (Cons x xs)
  then show ?case by (simp add: assms)
qed

lemma filteredFeatures_cases:
  "filterE (statsPredicate sel) fs =
     (if \<forall>f\<in>set fs. cityTrimmable f then Inr (filter (visible sel) fs) else Inl TypeError)"
  by (rule filterE_cases) (rule statsPredicate_cases)

lemmas filter_defs = statsPredicate_def piePredicate_def shouldShow_def featureCity_def
  featureType_def featureFocus_def cityField_def propsOrEmpty_def get_def js_or_def
  withProps_def noSelection_def

lemmas visible_defs = visible_def trimmedCity_def cityTrimmable_def

text \<open>
  C1, as the code has it. When every feature's city value (\<^verbatim>\<open>NAME\<close>, else \<^verbatim>\<open>City\<close>)
  is a string or falsy, the filter returns exactly the features that satisfy: the
  selected types are empty or contain the feature's type, and the selected focuses are
  empty or contain the feature's focus, and the selected city is empty after trimming or
  equals the feature's trimmed city; the order of the features is kept, the marker
  effect applies the same test to each marker, and a selection that is empty in every
  dimension shows every feature. When some city value is a number other than 0 and NaN,
  the filter raises a TypeError.
\<close>

theorem visible_set_exact:
  "filterE (statsPredicate sel) fs =
     (if \<forall>f\<in>set fs. cityTrimmable f then Inr (filter (visible sel) fs) else Inl TypeError)
   \<and> shouldShow sel f = (if cityTrimmable f then Inr (visible sel f) else Inl TypeError)
   \<and> visible sel f =
       ((selectedTypes sel = [] \<or> featureType f \<in> set (selectedTypes sel))
        \<and> (selectedDisasterFocus sel = [] \<or> featureFocus f \<in> set (selectedDisasterFocus sel))
        \<and> (trim (selectedCity sel) = [] \<or> trimmedCity f = JStr (trim (selectedCity sel))))
   \<and> (selectedTypes sel = [] \<longrightarrow> selectedDisasterFocus sel = [] \<longrightarrow>
        trim (selectedCity sel) = [] \<longrightarrow> (\<forall>f\<in>set fs. cityTrimmable f) \<longrightarrow>
        filterE (statsPredicate sel) fs = Inr fs)"
proof -
  have "filterE (statsPredicate sel) fs = Inr fs"
    if "selectedTypes sel = []" "selectedDisasterFocus sel = []" "trim (selectedCity sel) = []"
      "\<forall>f\<in>set fs. cityTrimmable f"
    using that by (simp add: filteredFeatures_cases visible_def)
  then show ?thesis
    by (simp add: filteredFeatures_cases shouldShow_cases visible_def)
qed

theorem visible_set_exact_witness:
  "filterE (statsPredicate \<lparr>selectedTypes = [JStr ''Blue'', JStr ''Green''],
        selectedDisasterFocus = [], selectedCity = ''Miami''\<rparr>)
     [withProps [(''Type'', JStr ''Blue''), (''NAME'', JStr '' Miami '')],
      withProps [(''Type'', JStr ''Grey''), (''NAME'', JStr ''Miami'')],
      withProps [(''Type'', JStr ''Green''), (''City'', JStr ''Doral'')]]
   = Inr [withProps [(''Type'', JStr ''Blue''), (''NAME'', JStr '' Miami '')]]
   \<and> filterE (statsPredicate noSelection)
     [withProps [(''Type'', JStr ''Blue''), (''NAME'', JStr '' Miami '')], withProps []]
   = Inr [withProps [(''Type'', JStr ''Blue''), (''NAME'', JStr '' Miami '')], withProps []]"
  using visible_set_exact [of "\<lparr>selectedTypes = [JStr ''Blue'', JStr ''Green''],
        selectedDisasterFocus = [], selectedCity = ''Miami''\<rparr>"
     "[withProps [(''Type'', JStr ''Blue''), (''NAME'', JStr '' Miami '')],
      withProps [(''Type'', JStr ''Grey''), (''NAME'', JStr ''Miami'')],
      withProps [(''Type'', JStr ''Green''), (''City'', JStr ''Doral'')]]" "withProps []"]
    visible_set_exact [of noSelection
     "[withProps [(''Type'', JStr ''Blue''), (''NAME'', JStr '' Miami '')], withProps []]"
     "withProps []"]
  by (simp add: filter_defs visible_defs text_defs)

text \<open>
  The visible set is not computed for every feature set, and a selected city of white
  space only is no constraint although it is not the empty string: a city value 7 makes
  the filter raise, and with the selected city \<^verbatim>\<open>" "\<close> a feature in Miami is shown.
\<close>

theorem visible_set_counterexample:
  "filterE (statsPredicate noSelection) [withProps [(''NAME'', JNum (Finite 7))]] = Inl TypeError
   \<and> filterE (statsPredicate (noSelection\<lparr>selectedCity := '' ''\<rparr>))
        [withProps [(''NAME'', JStr ''Miami'')]]
       = Inr [withProps [(''NAME'', JStr ''Miami'')]]
   \<and> filter (visibleAsStated (noSelection\<lparr>selectedCity := '' ''\<rparr>))
        [withProps [(''NAME'', JStr ''Miami'')]] = []"
  by (simp add: filter_defs visibleAsStated_def trimmedCity_def text_defs)

section \<open>Project count and total investment\<close>

















section \<open>Category distribution\<close>










































section \<open>One visible set for all aggregates\<close>





end
